theory Spec2Isabelle
  imports Complex_Main
begin

section \<open>Data model of main.go\<close>

text \<open>
  The three structs of the program. Go allows the same field name in several structs;
  the fields of \<open>LookupData\<close> that would clash with those of \<open>LocationData\<close> and
  \<open>WeatherObservation\<close> carry the prefix \<open>Lookup\<close>. A \<open>float64\<close> is only ever
  stored and copied by this program (no arithmetic is done on it), and the decoder
  rejects a number outside the range of \<open>float64\<close>, so it is represented by the real
  number it denotes; the zero value of \<open>float64\<close> is \<open>0\<close>, the zero value of
  \<open>string\<close> is the empty string, a byte sequence.
\<close>

record LookupData =
  ZipCode :: string
  LookupCity :: string
  LookupState :: string
  LookupTemperature :: real
  LookupStation :: string

record LocationData =
  City :: string
  State :: string
  Zip :: string
  Latitude :: real
  Longitude :: real

record WeatherObservation =
  Station :: string
  Temperature :: real

text \<open>
  What \<open>encoding/json\<close> decodes into an \<open>interface{}\<close>: \<open>nil\<close>, \<open>bool\<close>,
  \<open>float64\<close>, \<open>string\<close>, \<open>[]interface{}\<close> and \<open>map[string]interface{}\<close>.
  The nil interface value is \<open>JNull\<close>: it is both what the JSON text \<open>null\<close> decodes to
  and what \<open>getJSONData\<close> returns on failure. A Go map is an association list; the
  order of the list is the order in which one \<open>range\<close> loop happens to visit the keys,
  so a statement about every list is a statement about every iteration order.
\<close>

datatype json =
    JNull
  | JBool bool
  | JNum real
  | JStr string
  | JArr "json list"
  | JObj "(string \<times> json) list"

text \<open>A Go map holds each key once: the invariant of every decoded value.\<close>

fun wf_json :: "json \<Rightarrow> bool" where
  "wf_json (JArr xs) = (\<forall>x \<in> set xs. wf_json x)"
| "wf_json (JObj kvs) = (distinct (map fst kvs) \<and> (\<forall>v \<in> set (map snd kvs). wf_json v))"
| "wf_json _ = True"

subsection \<open>Run-time panics\<close>

text \<open>
  The dynamic type named in the message of a failed type assertion
  (\<open>interface conversion: interface {} is nil, not float64\<close>), and the three run-time
  panics the program can raise.
\<close>

datatype gotype = TNil | TBool | TFloat64 | TString | TSlice | TMap

fun dyn_type :: "json \<Rightarrow> gotype" where
  "dyn_type JNull = TNil"
| "dyn_type (JBool _) = TBool"
| "dyn_type (JNum _) = TFloat64"
| "dyn_type (JStr _) = TString"
| "dyn_type (JArr _) = TSlice"
| "dyn_type (JObj _) = TMap"

datatype panic =
    InterfaceConversion gotype gotype
  | IndexOutOfRange nat nat
  | SliceBoundsOutOfRange int nat

text \<open>\<open>x.(map[string]interface{})\<close>, \<open>x.([]interface{})\<close>, \<open>x.(string)\<close>, \<open>x.(float64)\<close>.\<close>

fun assert_map :: "json \<Rightarrow> panic + (string \<times> json) list" where
  "assert_map (JObj kvs) = Inr kvs"
| "assert_map j = Inl (InterfaceConversion (dyn_type j) TMap)"

fun assert_slice :: "json \<Rightarrow> panic + json list" where
  "assert_slice (JArr xs) = Inr xs"
| "assert_slice j = Inl (InterfaceConversion (dyn_type j) TSlice)"

fun assert_string :: "json \<Rightarrow> panic + string" where
  "assert_string (JStr s) = Inr s"
| "assert_string j = Inl (InterfaceConversion (dyn_type j) TString)"

fun assert_float64 :: "json \<Rightarrow> panic + real" where
  "assert_float64 (JNum x) = Inr x"
| "assert_float64 j = Inl (InterfaceConversion (dyn_type j) TFloat64)"

text \<open>\<open>m[k]\<close> on a map: the nil interface value when the key is missing.\<close>

definition index_map :: "(string \<times> json) list \<Rightarrow> string \<Rightarrow> json" where
  "index_map m k = (case map_of m k of None \<Rightarrow> JNull | Some v \<Rightarrow> v)"

text \<open>\<open>xs[i]\<close> on a slice: a panic when the index is not below the length.\<close>

definition index_slice :: "json list \<Rightarrow> nat \<Rightarrow> panic + json" where
  "index_slice xs i = (if i < length xs then Inr (xs ! i) else Inl (IndexOutOfRange i (length xs)))"

text \<open>
  \<open>s[lo:]\<close> on a string, which counts bytes: a panic when \<open>lo\<close> is negative or beyond
  the length.
\<close>

definition slice_from :: "string \<Rightarrow> int \<Rightarrow> panic + string" where
  "slice_from s lo =
     (if lo < 0 \<or> int (length s) < lo then Inl (SliceBoundsOutOfRange lo (length s))
      else Inr (drop (nat lo) s))"

subsection \<open>Loops\<close>

text \<open>
  A \<open>for ... range\<close> loop whose body updates a local variable and may panic: the body
  runs once for each element, in order, and the first panic ends the loop.
\<close>

fun range_loop :: "('k \<Rightarrow> 's \<Rightarrow> panic + 's) \<Rightarrow> 'k list \<Rightarrow> 's \<Rightarrow> panic + 's" where
  "range_loop body [] s = Inr s"
| "range_loop body (k # ks) s =
     (case body k s of Inl e \<Rightarrow> Inl e | Inr s' \<Rightarrow> range_loop body ks s')"

text \<open>
  The same with a \<open>return\<close> inside the body: \<open>Return r\<close> leaves the function with
  \<open>r\<close>, \<open>Continue s\<close> goes on with the local variable at \<open>s\<close>.
\<close>

datatype flow = Continue string | Return string

fun range_loop_ret :: "('k \<Rightarrow> string \<Rightarrow> panic + flow) \<Rightarrow> 'k list \<Rightarrow> string \<Rightarrow> panic + flow" where
  "range_loop_ret body [] s = Inr (Continue s)"
| "range_loop_ret body (k # ks) s =
     (case body k s of
        Inl e \<Rightarrow> Inl e
      | Inr (Return r) \<Rightarrow> Inr (Return r)
      | Inr (Continue s') \<Rightarrow> range_loop_ret body ks s')"

section \<open>The outside world\<close>

text \<open>
  What one \<open>http.Get\<close> followed by \<open>Decode\<close> comes to: the GET fails with an error, the
  body fails to decode with an error, or the body decodes to a value. The errors carry
  the text that \<open>%v\<close> prints. The world also fixes how \<open>%v\<close> prints a \<open>float64\<close>.
\<close>

datatype http_outcome = TransportError string | DecodeError string | Decoded json

record world =
  http_get :: "string \<Rightarrow> http_outcome"
  fmt_float :: "real \<Rightarrow> string"

section \<open>getJSONData\<close>

text \<open>The value returned, and the lines written to standard output.\<close>

definition getJSONData :: "world \<Rightarrow> string \<Rightarrow> json \<times> string list" where
  "getJSONData w requestURL =
     (case http_get w requestURL of
        TransportError err \<Rightarrow>
          (JNull, [''There was an error making the request to the location info API: ''
                     @ err @ [CHR 0x0A]])
      | DecodeError err \<Rightarrow>
          (JNull, [''There was an error processing JSON data: '' @ err @ [CHR 0x0A]])
      | Decoded jsonData \<Rightarrow> (jsonData, []))"

section \<open>latLonForZip\<close>

definition zip_url :: "string \<Rightarrow> string" where
  "zip_url zipCode =
     ''https://public.opendatasoft.com/api/records/1.0/search/?dataset=us-zip-code-latitude-and-longitude&q=''
       @ zipCode"

text \<open>
  The body of the loop over the keys of \<open>typedLocData\<close> (the \<open>switch\<close>). This loop
  assigns to the \<open>k\<close> of the loop around it, which takes a fresh key at its next
  iteration and is not read in between.
\<close>

definition fields_body :: "(string \<times> json) list \<Rightarrow> string \<Rightarrow> LocationData \<Rightarrow> panic + LocationData" where
  "fields_body typedLocData k loc =
     (if k = ''city'' then
        (case assert_string (index_map typedLocData k) of
           Inl e \<Rightarrow> Inl e | Inr v \<Rightarrow> Inr (loc\<lparr>City := v\<rparr>))
      else if k = ''zip'' then
        (case assert_string (index_map typedLocData k) of
           Inl e \<Rightarrow> Inl e | Inr v \<Rightarrow> Inr (loc\<lparr>Zip := v\<rparr>))
      else if k = ''longitude'' then
        (case assert_float64 (index_map typedLocData k) of
           Inl e \<Rightarrow> Inl e | Inr v \<Rightarrow> Inr (loc\<lparr>Longitude := v\<rparr>))
      else if k = ''state'' then
        (case assert_string (index_map typedLocData k) of
           Inl e \<Rightarrow> Inl e | Inr v \<Rightarrow> Inr (loc\<lparr>State := v\<rparr>))
      else if k = ''latitude'' then
        (case assert_float64 (index_map typedLocData k) of
           Inl e \<Rightarrow> Inl e | Inr v \<Rightarrow> Inr (loc\<lparr>Latitude := v\<rparr>))
      else Inr loc)"

text \<open>The body of the loop over the keys of \<open>typedInfoRecord\<close>.\<close>

definition record_body :: "(string \<times> json) list \<Rightarrow> string \<Rightarrow> LocationData \<Rightarrow> panic + LocationData" where
  "record_body typedInfoRecord k loc =
     (if k = ''fields'' then
        (case assert_map (index_map typedInfoRecord ''fields'') of
           Inl e \<Rightarrow> Inl e
         | Inr typedLocData \<Rightarrow>
             range_loop (fields_body typedLocData) (map fst typedLocData) loc)
      else Inr loc)"

text \<open>The body of the loop over the keys of \<open>typedJSONData\<close>.\<close>

definition records_body :: "(string \<times> json) list \<Rightarrow> string \<Rightarrow> LocationData \<Rightarrow> panic + LocationData" where
  "records_body typedJSONData k loc =
     (if k = ''records'' then
        (case assert_slice (index_map typedJSONData ''records'') of
           Inl e \<Rightarrow> Inl e
         | Inr typedRecordsInfo \<Rightarrow>
             (case index_slice typedRecordsInfo 0 of
                Inl e \<Rightarrow> Inl e
              | Inr r \<Rightarrow>
                  (case assert_map r of
                     Inl e \<Rightarrow> Inl e
                   | Inr typedInfoRecord \<Rightarrow>
                       range_loop (record_body typedInfoRecord) (map fst typedInfoRecord) loc)))
      else Inr loc)"

definition latLonForZip :: "world \<Rightarrow> string \<Rightarrow> (panic + LocationData) \<times> string list" where
  "latLonForZip w zipCode =
     (let url = zip_url zipCode;
          loc = \<lparr>City = [], State = [], Zip = [], Latitude = 0, Longitude = 0\<rparr>;
          (jsonData, out) = getJSONData w url
      in (case assert_map jsonData of
            Inl e \<Rightarrow> Inl e
          | Inr typedJSONData \<Rightarrow>
              range_loop (records_body typedJSONData) (map fst typedJSONData) loc,
          out))"

section \<open>findNearestStation\<close>

definition stations_url :: "world \<Rightarrow> real \<Rightarrow> real \<Rightarrow> string" where
  "stations_url w lat lon =
     ''https://api.weather.gov/points/'' @ fmt_float w lat @ '','' @ fmt_float w lon @ ''/stations''"

text \<open>The body of the loop over the indices of \<open>typedStations\<close>.\<close>

definition stations_body :: "json list \<Rightarrow> nat \<Rightarrow> string \<Rightarrow> panic + flow" where
  "stations_body typedStations k stationID =
     (if k = 0 then
        (case index_slice typedStations k of
           Inl e \<Rightarrow> Inl e
         | Inr x \<Rightarrow>
             (case assert_string x of
                Inl e \<Rightarrow> Inl e
              | Inr s \<Rightarrow>
                  (case slice_from s (int (length s) - 4) of
                     Inl e \<Rightarrow> Inl e
                   | Inr s' \<Rightarrow> Inr (Return s'))))
      else Inr (Continue stationID))"

text \<open>The body of the loop over the keys of \<open>typedJSONData\<close>.\<close>

definition nearest_body :: "(string \<times> json) list \<Rightarrow> string \<Rightarrow> string \<Rightarrow> panic + flow" where
  "nearest_body typedJSONData k stationID =
     (if k = ''observationStations'' then
        (case assert_slice (index_map typedJSONData ''observationStations'') of
           Inl e \<Rightarrow> Inl e
         | Inr typedStations \<Rightarrow>
             range_loop_ret (stations_body typedStations) [0 ..< length typedStations] stationID)
      else Inr (Continue stationID))"

definition findNearestStation :: "world \<Rightarrow> real \<Rightarrow> real \<Rightarrow> (panic + string) \<times> string list" where
  "findNearestStation w lat lon =
     (let stationID = [];
          url = stations_url w lat lon;
          (jsonData, out) = getJSONData w url
      in (case assert_map jsonData of
            Inl e \<Rightarrow> Inl e
          | Inr typedJSONData \<Rightarrow>
              (case range_loop_ret (nearest_body typedJSONData) (map fst typedJSONData) stationID of
                 Inl e \<Rightarrow> Inl e
               | Inr (Return r) \<Rightarrow> Inr r
               | Inr (Continue s) \<Rightarrow> Inr s),
          out))"

section \<open>getLatestObservation\<close>

definition observation_url :: "string \<Rightarrow> string" where
  "observation_url station =
     ''https://api.weather.gov/stations/'' @ station @ ''/observations/latest''"

text \<open>The bodies of the loops over \<open>typedTemp\<close>, \<open>typedProps\<close> and \<open>typedJSONData\<close>.\<close>

definition temp_body :: "string \<times> json \<Rightarrow> WeatherObservation \<Rightarrow> panic + WeatherObservation" where
  "temp_body kv latestObservation =
     (case kv of (k, v) \<Rightarrow>
        if k = ''value'' then
          (case assert_float64 v of
             Inl e \<Rightarrow> Inl e
           | Inr t \<Rightarrow> Inr (latestObservation\<lparr>Temperature := t\<rparr>))
        else Inr latestObservation)"

definition props_body :: "string \<times> json \<Rightarrow> WeatherObservation \<Rightarrow> panic + WeatherObservation" where
  "props_body kv latestObservation =
     (case kv of (k, v) \<Rightarrow>
        if k = ''temperature'' then
          (case assert_map v of
             Inl e \<Rightarrow> Inl e
           | Inr typedTemp \<Rightarrow> range_loop temp_body typedTemp latestObservation)
        else Inr latestObservation)"

definition observation_body :: "string \<times> json \<Rightarrow> WeatherObservation \<Rightarrow> panic + WeatherObservation" where
  "observation_body kv latestObservation =
     (case kv of (k, v) \<Rightarrow>
        if k = ''properties'' then
          (case assert_map v of
             Inl e \<Rightarrow> Inl e
           | Inr typedProps \<Rightarrow> range_loop props_body typedProps latestObservation)
        else Inr latestObservation)"

definition getLatestObservation :: "world \<Rightarrow> string \<Rightarrow> (panic + WeatherObservation) \<times> string list" where
  "getLatestObservation w station =
     (let latestObservation = \<lparr>Station = station, Temperature = 0\<rparr>;
          requestURL = observation_url station;
          (jsonData, out) = getJSONData w requestURL
      in (case assert_map jsonData of
            Inl e \<Rightarrow> Inl e
          | Inr typedJSONData \<Rightarrow> range_loop observation_body typedJSONData latestObservation,
          out))"

section \<open>getObservationForZip\<close>

text \<open>
  The three calls in sequence. A panic in one of them ends the function; what was
  written to standard output before stays written.
\<close>

definition getObservationForZip :: "world \<Rightarrow> string \<Rightarrow> (panic + LookupData) \<times> string list" where
  "getObservationForZip w zipCode =
     (case latLonForZip w zipCode of
        (Inl e, out1) \<Rightarrow> (Inl e, out1)
      | (Inr loc, out1) \<Rightarrow>
          (case findNearestStation w (Latitude loc) (Longitude loc) of
             (Inl e, out2) \<Rightarrow> (Inl e, out1 @ out2)
           | (Inr nearestStation, out2) \<Rightarrow>
               (case getLatestObservation w nearestStation of
                  (Inl e, out3) \<Rightarrow> (Inl e, out1 @ out2 @ out3)
                | (Inr latestObservation, out3) \<Rightarrow>
                    (Inr \<lparr>ZipCode = Zip loc,
                          LookupCity = City loc,
                          LookupState = State loc,
                          LookupTemperature = Temperature latestObservation,
                          LookupStation = Station latestObservation\<rparr>,
                     out1 @ out2 @ out3))))"

section \<open>Shapes of responses\<close>

text \<open>
  The path \<open>properties.temperature.value\<close> is absent from a response: a key is missing
  at some level, and every level that is there is a mapping.
\<close>

definition value_absent :: "(string \<times> json) list \<Rightarrow> bool" where
  "value_absent kvs =
     (case map_of kvs ''properties'' of
        None \<Rightarrow> True
      | Some (JObj props) \<Rightarrow>
          (case map_of props ''temperature'' of
             None \<Rightarrow> True
           | Some (JObj temp) \<Rightarrow> map_of temp ''value'' = None
           | Some _ \<Rightarrow> False)
      | Some _ \<Rightarrow> False)"

text \<open>
  What the extraction policy of the geocoder prescribes for one field of \<open>fields\<close>: the
  value under the key when it is there with its type, the zero value otherwise.
\<close>

definition string_field :: "(string \<times> json) list \<Rightarrow> string \<Rightarrow> string" where
  "string_field m k = (case map_of m k of Some (JStr s) \<Rightarrow> s | _ \<Rightarrow> [])"

definition number_field :: "(string \<times> json) list \<Rightarrow> string \<Rightarrow> real" where
  "number_field m k = (case map_of m k of Some (JNum x) \<Rightarrow> x | _ \<Rightarrow> 0)"

text \<open>
  A key of \<open>fields\<close> is missing or has its expected primitive type; all five known
  keys do.
\<close>

definition string_or_absent :: "json option \<Rightarrow> bool" where
  "string_or_absent x = (case x of None \<Rightarrow> True | Some (JStr _) \<Rightarrow> True | Some _ \<Rightarrow> False)"

definition number_or_absent :: "json option \<Rightarrow> bool" where
  "number_or_absent x = (case x of None \<Rightarrow> True | Some (JNum _) \<Rightarrow> True | Some _ \<Rightarrow> False)"

definition typed_fields :: "(string \<times> json) list \<Rightarrow> bool" where
  "typed_fields m =
     (string_or_absent (map_of m ''city'') \<and> string_or_absent (map_of m ''zip'')
      \<and> number_or_absent (map_of m ''longitude'') \<and> string_or_absent (map_of m ''state'')
      \<and> number_or_absent (map_of m ''latitude''))"

text \<open>
  The Location that the extraction policy prescribes for a \<open>fields\<close> mapping.
\<close>

definition location_of_fields :: "(string \<times> json) list \<Rightarrow> LocationData" where
  "location_of_fields m =
     \<lparr>City = string_field m ''city'', State = string_field m ''state'',
      Zip = string_field m ''zip'', Latitude = number_field m ''latitude'',
      Longitude = number_field m ''longitude''\<rparr>"

text \<open>
  The valid range of the geocoding service: latitude in \<open>[-90, 90]\<close>, longitude in
  \<open>[-180, 180]\<close>.
\<close>

definition valid_coordinates :: "real \<Rightarrow> real \<Rightarrow> bool" where
  "valid_coordinates lat lon = (- 90 \<le> lat \<and> lat \<le> 90 \<and> - 180 \<le> lon \<and> lon \<le> 180)"

text \<open>
  \<open>s[len(s)-4:]\<close> as one function of \<open>s\<close>: the trailing four bytes, or the panic of
  a negative lower bound.
\<close>

definition trailing4 :: "string \<Rightarrow> panic + string" where
  "trailing4 s =
     (if 4 \<le> length s then Inr (drop (length s - 4) s)
      else Inl (SliceBoundsOutOfRange (int (length s) - 4) (length s)))"

section \<open>Example worlds\<close>

text \<open>
  A world in which every GET has the same outcome, and the responses of the end-to-end
  scenario of the specification, served by URL.
\<close>

definition reply_world :: "http_outcome \<Rightarrow> world" where
  "reply_world r = \<lparr>http_get = (\<lambda>url. r), fmt_float = (\<lambda>x. ''0'')\<rparr>"

definition scenario_fields :: "(string \<times> json) list" where
  "scenario_fields =
     [(''city'', JStr ''Washington''), (''state'', JStr ''DC''), (''zip'', JStr ''20500''),
      (''latitude'', JNum 38.9), (''longitude'', JNum (- 77.03))]"

definition scenario_geocoding :: "(string \<times> json) list \<Rightarrow> json" where
  "scenario_geocoding m = JObj [(''records'', JArr [JObj [(''fields'', JObj m)]])]"

definition scenario_stations :: json where
  "scenario_stations =
     JObj [(''observationStations'', JArr [JStr ''https://api.weather.gov/stations/KDCA''])]"

definition scenario_observation :: json where
  "scenario_observation =
     JObj [(''properties'', JObj [(''temperature'', JObj [(''value'', JNum 21.1)])])]"

definition scenario_world :: world where
  "scenario_world =
     \<lparr>http_get = (\<lambda>url.
        if url = zip_url ''20500'' then Decoded (scenario_geocoding scenario_fields)
        else if url = ''https://api.weather.gov/points/38.9,-77.03/stations''
          then Decoded scenario_stations
        else if url = observation_url ''KDCA'' then Decoded scenario_observation
        else TransportError ''no such host''),
      fmt_float = (\<lambda>x. if x = 38.9 then ''38.9'' else if x = - 77.03 then ''-77.03'' else ''0'')\<rparr>"

text \<open>
  Further responses: a stations response with no station, an observation without a
  reading and one whose reading is null, a geocoding response with a partial \<open>fields\<close>
  mapping and an unknown key, one with no record, one with a latitude outside the valid
  range, and a stations response whose first station string is three bytes long.
\<close>

definition empty_stations :: "(string \<times> json) list" where
  "empty_stations = [(''type'', JStr ''FeatureCollection''), (''observationStations'', JArr [])]"

definition more_stations :: "(string \<times> json) list" where
  "more_stations =
     [(''type'', JStr ''FeatureCollection''),
      (''observationStations'',
         JArr [JStr ''https://api.weather.gov/stations/KDCA'',
               JStr ''https://api.weather.gov/stations/KADW''])]"

definition short_stations :: "(string \<times> json) list" where
  "short_stations = [(''observationStations'', JArr [JStr ''abc''])]"

definition bare_observation :: "(string \<times> json) list" where
  "bare_observation =
     [(''properties'', JObj [(''temperature'', JObj [(''unitCode'', JStr ''wmoUnit:degC'')])])]"

definition null_observation :: "(string \<times> json) list" where
  "null_observation = [(''properties'', JObj [(''temperature'', JObj [(''value'', JNull)])])]"

definition partial_fields :: "(string \<times> json) list" where
  "partial_fields =
     [(''city'', JStr ''Washington''), (''dst'', JNum 1), (''zip'', JStr ''20500''),
      (''latitude'', JNum 38.9)]"

definition partial_record :: "(string \<times> json) list" where
  "partial_record = [(''datasetid'', JStr ''us-zip-code-latitude-and-longitude''),
                     (''fields'', JObj partial_fields)]"

definition partial_geocoding :: "(string \<times> json) list" where
  "partial_geocoding = [(''nhits'', JNum 1), (''records'', JArr [JObj partial_record])]"

definition empty_geocoding :: "(string \<times> json) list" where
  "empty_geocoding = [(''nhits'', JNum 0), (''records'', JArr [])]"

definition far_fields :: "(string \<times> json) list" where
  "far_fields = [(''zip'', JStr ''20500''), (''latitude'', JNum 1000), (''longitude'', JNum (- 77.03))]"

definition far_record :: "(string \<times> json) list" where
  "far_record = [(''fields'', JObj far_fields)]"

definition far_geocoding :: "(string \<times> json) list" where
  "far_geocoding = [(''records'', JArr [JObj far_record])]"

section \<open>Loops that look for one key\<close>

lemma wf_json_distinct: "wf_json (JObj kvs) \<Longrightarrow> distinct (map fst kvs)"
  by simp

lemma wf_json_lookup: "wf_json (JObj kvs) \<Longrightarrow> map_of kvs k = Some v \<Longrightarrow> wf_json v"
  by (auto dest: map_of_SomeD)

lemma wf_json_head: "wf_json (JArr (x # xs)) \<Longrightarrow> wf_json x"
  by simp

lemma map_of_key_mem: "map_of kvs k = Some v \<Longrightarrow> k \<in> set (map fst kvs)"
  by (metis map_of_eq_None_iff option.distinct(1) set_map)

lemma range_loop_skip:
  "(\<And>x. x \<in> set xs \<Longrightarrow> body x s = Inr s) \<Longrightarrow> range_loop body xs s = Inr s"
  by (induction xs) auto

lemma range_loop_panic:
  "x0 \<in> set xs \<Longrightarrow> body x0 s = Inl e \<Longrightarrow> (\<And>x. x \<in> set xs \<Longrightarrow> x \<noteq> x0 \<Longrightarrow> body x s = Inr s)
    \<Longrightarrow> range_loop body xs s = Inl e"
proof (induction xs)
  case Nil
  then show ?case by simp
next
  case (Cons x xs)
  show ?case
  proof (cases "x = x0")
    case True
    with Cons.prems show ?thesis by simp
  next
    case False
    with Cons.prems have "body x s = Inr s" and "x0 \<in> set xs" by auto
    with Cons show ?thesis by simp
  qed
qed

lemma range_loop_one:
  "distinct xs \<Longrightarrow> x0 \<in> set xs \<Longrightarrow> (\<And>x t. x \<in> set xs \<Longrightarrow> x \<noteq> x0 \<Longrightarrow> body x t = Inr t)
    \<Longrightarrow> range_loop body xs s = body x0 s"
proof (induction xs)
  case Nil
  then show ?case by simp
next
  case (Cons x xs)
  show ?case
  proof (cases "x = x0")
    case True
    with Cons.prems have "x0 \<notin> set xs" by simp
    with Cons.prems have "\<And>t. range_loop body xs t = Inr t"
      by (intro range_loop_skip) auto
    with True show ?thesis by (simp split: sum.split)
  next
    case False
    with Cons.prems have "body x s = Inr s" and "x0 \<in> set xs" by auto
    with Cons show ?thesis by simp
  qed
qed

lemma range_loop_ret_skip:
  "(\<And>x. x \<in> set xs \<Longrightarrow> body x s = Inr (Continue s)) \<Longrightarrow> range_loop_ret body xs s = Inr (Continue s)"
  by (induction xs) auto

lemma range_loop_ret_stop:
  "x0 \<in> set xs \<Longrightarrow> (\<And>t. body x0 s \<noteq> Inr (Continue t))
    \<Longrightarrow> (\<And>x. x \<in> set xs \<Longrightarrow> x \<noteq> x0 \<Longrightarrow> body x s = Inr (Continue s))
    \<Longrightarrow> range_loop_ret body xs s = body x0 s"
proof (induction xs)
  case Nil
  then show ?case by simp
next
  case (Cons x xs)
  show ?case
  proof (cases "x = x0")
    case True
    with Cons.prems(2) show ?thesis
      by (cases "body x0 s") (auto split: flow.split)
  next
    case False
    with Cons.prems have "body x s = Inr (Continue s)" and "x0 \<in> set xs" by auto
    with Cons show ?thesis by simp
  qed
qed

lemma pair_loop_absent:
  assumes "map_of kvs k0 = None" and "\<And>k v t. k \<noteq> k0 \<Longrightarrow> body (k, v) t = Inr t"
  shows "range_loop body kvs s = Inr s"
proof (rule range_loop_skip)
  fix x assume "x \<in> set kvs"
  with assms(1) have "fst x \<noteq> k0"
    by (metis map_of_eq_None_iff image_eqI)
  with assms(2) [of "fst x" "snd x" s] show "body x s = Inr s" by simp
qed

lemma pair_loop_present:
  assumes "distinct (map fst kvs)" and "map_of kvs k0 = Some v0"
    and "\<And>k v t. k \<noteq> k0 \<Longrightarrow> body (k, v) t = Inr t"
  shows "range_loop body kvs s = body (k0, v0) s"
proof (rule range_loop_one)
  show "distinct kvs" using assms(1) by (simp add: distinct_map)
  show "(k0, v0) \<in> set kvs" using assms(2) by (rule map_of_SomeD)
  fix x t assume "x \<in> set kvs" and "x \<noteq> (k0, v0)"
  with assms(1) \<open>(k0, v0) \<in> set kvs\<close> have "fst x \<noteq> k0"
    by (cases x) (auto dest: eq_key_imp_eq_value)
  with assms(3) [of "fst x" "snd x" t] show "body x t = Inr t" by simp
qed

section \<open>The loops of getLatestObservation\<close>

lemma temp_loop_absent:
  "map_of temp ''value'' = None \<Longrightarrow> range_loop temp_body temp obs = Inr obs"
  by (rule pair_loop_absent [where ?k0.0 = "''value''"]) (simp_all add: temp_body_def)

lemma temp_loop_present:
  "distinct (map fst temp) \<Longrightarrow> map_of temp ''value'' = Some v
    \<Longrightarrow> range_loop temp_body temp obs = temp_body (''value'', v) obs"
  by (rule pair_loop_present) (simp_all add: temp_body_def)

lemma props_loop_absent:
  "map_of props ''temperature'' = None \<Longrightarrow> range_loop props_body props obs = Inr obs"
  by (rule pair_loop_absent [where ?k0.0 = "''temperature''"]) (simp_all add: props_body_def)

lemma props_loop_present:
  "distinct (map fst props) \<Longrightarrow> map_of props ''temperature'' = Some v
    \<Longrightarrow> range_loop props_body props obs = props_body (''temperature'', v) obs"
  by (rule pair_loop_present) (simp_all add: props_body_def)

lemma observation_loop_absent:
  "map_of kvs ''properties'' = None \<Longrightarrow> range_loop observation_body kvs obs = Inr obs"
  by (rule pair_loop_absent [where ?k0.0 = "''properties''"]) (simp_all add: observation_body_def)

lemma observation_loop_present:
  "distinct (map fst kvs) \<Longrightarrow> map_of kvs ''properties'' = Some v
    \<Longrightarrow> range_loop observation_body kvs obs = observation_body (''properties'', v) obs"
  by (rule pair_loop_present) (simp_all add: observation_body_def)

lemma getLatestObservation_decoded:
  "http_get w (observation_url station) = Decoded (JObj kvs)
    \<Longrightarrow> getLatestObservation w station =
         (range_loop observation_body kvs \<lparr>Station = station, Temperature = 0\<rparr>, [])"
  by (simp add: getLatestObservation_def getJSONData_def)

lemma getLatestObservation_value:
  assumes get: "http_get w (observation_url station) = Decoded (JObj kvs)"
    and wf: "wf_json (JObj kvs)"
    and props: "map_of kvs ''properties'' = Some (JObj props)"
    and temp: "map_of props ''temperature'' = Some (JObj temp)"
    and val: "map_of temp ''value'' = Some v"
  shows "getLatestObservation w station =
           (case assert_float64 v of
              Inl e \<Rightarrow> Inl e
            | Inr t \<Rightarrow> Inr \<lparr>Station = station, Temperature = t\<rparr>, [])"
proof -
  let ?obs = "\<lparr>Station = station, Temperature = 0\<rparr>"
  let ?res = "case assert_float64 v of Inl e \<Rightarrow> Inl e
              | Inr t \<Rightarrow> Inr \<lparr>Station = station, Temperature = t\<rparr>"
  from wf props have wfp: "wf_json (JObj props)" by (rule wf_json_lookup)
  from wfp temp have wft: "wf_json (JObj temp)" by (rule wf_json_lookup)
  from wft val have "range_loop temp_body temp ?obs = ?res"
    by (simp add: temp_loop_present temp_body_def split: sum.split)
  with wfp temp have "range_loop props_body props ?obs = ?res"
    by (simp add: props_loop_present props_body_def)
  with wf props have "range_loop observation_body kvs ?obs = ?res"
    by (simp add: observation_loop_present observation_body_def)
  with get show ?thesis by (simp add: getLatestObservation_decoded)
qed

section \<open>The loops of findNearestStation\<close>

lemma findNearestStation_decoded:
  "http_get w (stations_url w lat lon) = Decoded (JObj kvs)
    \<Longrightarrow> findNearestStation w lat lon =
         (case range_loop_ret (nearest_body kvs) (map fst kvs) [] of
            Inl e \<Rightarrow> Inl e
          | Inr (Return r) \<Rightarrow> Inr r
          | Inr (Continue s) \<Rightarrow> Inr s,
          [])"
  by (simp add: findNearestStation_def getJSONData_def)

lemma stations_loop_first:
  "range_loop_ret (stations_body (JStr s # rest)) [0 ..< length (JStr s # rest)] stationID =
     (case trailing4 s of Inl e \<Rightarrow> Inl e | Inr r \<Rightarrow> Inr (Return r))"
proof -
  have upt: "[0 ..< length (JStr s # rest)] = 0 # [Suc 0 ..< length (JStr s # rest)]"
    by (rule upt_conv_Cons) simp
  have "nat (int (length s) - 4) = length s - 4" by simp
  then show ?thesis
    unfolding upt
    by (simp add: stations_body_def index_slice_def slice_from_def trailing4_def del: upt_Suc)
qed

lemma nearest_loop_first:
  assumes "map_of kvs ''observationStations'' = Some (JArr (JStr s # rest))"
  shows "range_loop_ret (nearest_body kvs) (map fst kvs) [] =
           (case trailing4 s of Inl e \<Rightarrow> Inl e | Inr r \<Rightarrow> Inr (Return r))"
proof -
  have at_key: "nearest_body kvs ''observationStations'' [] =
      (case trailing4 s of Inl e \<Rightarrow> Inl e | Inr r \<Rightarrow> Inr (Return r))"
    using assms stations_loop_first [of s rest "[]"]
    by (simp add: nearest_body_def index_map_def)
  have "range_loop_ret (nearest_body kvs) (map fst kvs) [] =
          nearest_body kvs ''observationStations'' []"
  proof (rule range_loop_ret_stop)
    show "''observationStations'' \<in> set (map fst kvs)"
      using assms by (rule map_of_key_mem)
    show "nearest_body kvs ''observationStations'' [] \<noteq> Inr (Continue t)" for t
      unfolding at_key by (simp split: sum.split)
    show "nearest_body kvs x [] = Inr (Continue [])" if "x \<noteq> ''observationStations''" for x
      using that by (simp add: nearest_body_def)
  qed
  with at_key show ?thesis by simp
qed

lemma findNearestStation_first:
  assumes "http_get w (stations_url w lat lon) = Decoded (JObj kvs)"
    and "map_of kvs ''observationStations'' = Some (JArr (JStr s # rest))"
  shows "findNearestStation w lat lon = (trailing4 s, [])"
  using assms
  by (simp add: findNearestStation_decoded nearest_loop_first split: sum.split)

lemma trailing4_KDCA: "trailing4 ''https://api.weather.gov/stations/KDCA'' = Inr ''KDCA''"
  by (simp add: trailing4_def)

section \<open>The loops of latLonForZip\<close>

lemma string_typed:
  "string_or_absent (map_of m k) \<Longrightarrow> k \<in> set (map fst m)
    \<Longrightarrow> assert_string (index_map m k) = Inr (string_field m k)"
  by (cases "map_of m k")
     (auto simp: string_or_absent_def index_map_def string_field_def map_of_eq_None_iff
           split: json.splits)

lemma number_typed:
  "number_or_absent (map_of m k) \<Longrightarrow> k \<in> set (map fst m)
    \<Longrightarrow> assert_float64 (index_map m k) = Inr (number_field m k)"
  by (cases "map_of m k")
     (auto simp: number_or_absent_def index_map_def number_field_def map_of_eq_None_iff
           split: json.splits)

lemma fields_loop:
  "typed_fields m \<Longrightarrow> set ks \<subseteq> set (map fst m) \<Longrightarrow>
   range_loop (fields_body m) ks loc =
     Inr \<lparr>City = (if ''city'' \<in> set ks then string_field m ''city'' else City loc),
          State = (if ''state'' \<in> set ks then string_field m ''state'' else State loc),
          Zip = (if ''zip'' \<in> set ks then string_field m ''zip'' else Zip loc),
          Latitude = (if ''latitude'' \<in> set ks then number_field m ''latitude'' else Latitude loc),
          Longitude = (if ''longitude'' \<in> set ks then number_field m ''longitude'' else Longitude loc)\<rparr>"
proof (induction ks arbitrary: loc)
  case Nil
  then show ?case by simp
next
  case (Cons k ks)
  from Cons.prems have k: "k \<in> set (map fst m)" and ks: "set ks \<subseteq> set (map fst m)" by auto
  note IH = Cons.IH [OF Cons.prems(1) ks]
  from Cons.prems(1) have t:
    "string_or_absent (map_of m ''city'')" "string_or_absent (map_of m ''zip'')"
    "number_or_absent (map_of m ''longitude'')" "string_or_absent (map_of m ''state'')"
    "number_or_absent (map_of m ''latitude'')"
    by (simp_all add: typed_fields_def)
  consider "k = ''city''" | "k = ''zip''" | "k = ''longitude''" | "k = ''state''"
    | "k = ''latitude''"
    | "k \<noteq> ''city''" "k \<noteq> ''zip''" "k \<noteq> ''longitude''" "k \<noteq> ''state''" "k \<noteq> ''latitude''"
    by blast
  then show ?case
  proof cases
    case 1
    with k t(1) have "fields_body m k loc = Inr (loc\<lparr>City := string_field m ''city''\<rparr>)"
      by (simp add: fields_body_def string_typed)
    with 1 show ?thesis by (simp add: IH)
  next
    case 2
    with k t(2) have "fields_body m k loc = Inr (loc\<lparr>Zip := string_field m ''zip''\<rparr>)"
      by (simp add: fields_body_def string_typed)
    with 2 show ?thesis by (simp add: IH)
  next
    case 3
    with k t(3) have "fields_body m k loc = Inr (loc\<lparr>Longitude := number_field m ''longitude''\<rparr>)"
      by (simp add: fields_body_def number_typed)
    with 3 show ?thesis by (simp add: IH)
  next
    case 4
    with k t(4) have "fields_body m k loc = Inr (loc\<lparr>State := string_field m ''state''\<rparr>)"
      by (simp add: fields_body_def string_typed)
    with 4 show ?thesis by (simp add: IH)
  next
    case 5
    with k t(5) have "fields_body m k loc = Inr (loc\<lparr>Latitude := number_field m ''latitude''\<rparr>)"
      by (simp add: fields_body_def number_typed)
    with 5 show ?thesis by (simp add: IH)
  next
    case 6
    then have "fields_body m k loc = Inr loc"
      by (simp add: fields_body_def)
    with 6 show ?thesis by (simp add: IH)
  qed
qed

lemma absent_string_field: "k \<notin> set (map fst m) \<Longrightarrow> string_field m k = []"
  by (simp add: string_field_def map_of_eq_None_iff [symmetric])

lemma absent_number_field: "k \<notin> set (map fst m) \<Longrightarrow> number_field m k = 0"
  by (simp add: number_field_def map_of_eq_None_iff [symmetric])

lemma fields_loop_all:
  assumes "typed_fields m"
  shows "range_loop (fields_body m) (map fst m)
           \<lparr>City = [], State = [], Zip = [], Latitude = 0, Longitude = 0\<rparr>
         = Inr (location_of_fields m)"
  using fields_loop [OF assms subset_refl]
  by (simp add: location_of_fields_def absent_string_field absent_number_field)

lemma record_loop:
  assumes "distinct (map fst r)" and "map_of r ''fields'' = Some (JObj m)"
  shows "range_loop (record_body r) (map fst r) loc = range_loop (fields_body m) (map fst m) loc"
proof -
  have "range_loop (record_body r) (map fst r) loc = record_body r ''fields'' loc"
  proof (rule range_loop_one)
    show "distinct (map fst r)" by fact
    show "''fields'' \<in> set (map fst r)" using assms(2) by (rule map_of_key_mem)
    show "record_body r x t = Inr t" if "x \<noteq> ''fields''" for x t
      using that by (simp add: record_body_def)
  qed
  with assms(2) show ?thesis by (simp add: record_body_def index_map_def)
qed

lemma records_loop:
  assumes "distinct (map fst kvs)" and "map_of kvs ''records'' = Some v"
  shows "range_loop (records_body kvs) (map fst kvs) loc = records_body kvs ''records'' loc"
proof (rule range_loop_one)
  show "distinct (map fst kvs)" by fact
  show "''records'' \<in> set (map fst kvs)" using assms(2) by (rule map_of_key_mem)
  show "records_body kvs x t = Inr t" if "x \<noteq> ''records''" for x t
    using that by (simp add: records_body_def)
qed

lemma latLonForZip_decoded:
  "http_get w (zip_url z) = Decoded (JObj kvs)
    \<Longrightarrow> latLonForZip w z =
         (range_loop (records_body kvs) (map fst kvs)
            \<lparr>City = [], State = [], Zip = [], Latitude = 0, Longitude = 0\<rparr>, [])"
  by (simp add: latLonForZip_def getJSONData_def)

lemma latLonForZip_extract:
  assumes get: "http_get w (zip_url z) = Decoded (JObj kvs)"
    and dist: "distinct (map fst kvs)"
    and recs: "map_of kvs ''records'' = Some (JArr (JObj r # rs))"
    and distr: "distinct (map fst r)"
    and flds: "map_of r ''fields'' = Some (JObj m)"
    and typed: "typed_fields m"
  shows "latLonForZip w z = (Inr (location_of_fields m), [])"
proof -
  let ?loc = "\<lparr>City = [], State = [], Zip = [], Latitude = 0, Longitude = 0\<rparr>"
  from dist have "range_loop (records_body kvs) (map fst kvs) ?loc = records_body kvs ''records'' ?loc"
    using recs by (rule records_loop)
  also from recs have "\<dots> = range_loop (record_body r) (map fst r) ?loc"
    by (simp add: records_body_def index_map_def index_slice_def)
  also from distr flds have "\<dots> = range_loop (fields_body m) (map fst m) ?loc"
    by (rule record_loop)
  also from typed have "\<dots> = Inr (location_of_fields m)" by (rule fields_loop_all)
  finally show ?thesis using get by (simp add: latLonForZip_decoded)
qed

lemma wf_first_record:
  assumes "wf_json (JObj kvs)" and "map_of kvs ''records'' = Some (JArr (JObj r # rs))"
  shows "distinct (map fst kvs)" and "distinct (map fst r)"
proof -
  from assms have "wf_json (JArr (JObj r # rs))" by (rule wf_json_lookup)
  then have "wf_json (JObj r)" by (rule wf_json_head)
  then show "distinct (map fst r)" by (rule wf_json_distinct)
  from assms(1) show "distinct (map fst kvs)" by (rule wf_json_distinct)
qed

section \<open>The end-to-end scenario\<close>

text \<open>
  C1. For the zip code \<open>20500\<close>, when the geocoding fetch yields the scenario's record
  (its \<open>fields\<close> mapping visited in whatever order), the stations fetch yields the
  list with the one station URL ending in \<open>KDCA\<close>, and the observation fetch yields the
  temperature \<open>21.1\<close>, \<open>getObservationForZip\<close> returns exactly
  \<open>LookupData{ZipCode:"20500", City:"Washington", State:"DC", Temperature:21.1, Station:"KDCA"}\<close>
  and writes nothing to standard output.
\<close>

theorem getObservationForZip_scenario:
  assumes geo: "http_get w (zip_url ''20500'') = Decoded (scenario_geocoding m)"
    and dist: "distinct (map fst m)"
    and same: "set m = set scenario_fields"
    and stations: "http_get w (stations_url w 38.9 (- 77.03)) = Decoded scenario_stations"
    and obs: "http_get w (observation_url ''KDCA'') = Decoded scenario_observation"
  shows "getObservationForZip w ''20500'' =
           (Inr \<lparr>ZipCode = ''20500'', LookupCity = ''Washington'', LookupState = ''DC'',
                 LookupTemperature = 21.1, LookupStation = ''KDCA''\<rparr>, [])"
proof -
  have "distinct (map fst scenario_fields)" by (simp add: scenario_fields_def)
  with dist same have m: "map_of m = map_of scenario_fields"
    by (simp add: map_of_inject_set)
  have typed: "typed_fields m"
    by (simp add: typed_fields_def m scenario_fields_def string_or_absent_def
          number_or_absent_def)
  have loc: "location_of_fields m =
      \<lparr>City = ''Washington'', State = ''DC'', Zip = ''20500'', Latitude = 38.9,
       Longitude = - 77.03\<rparr>"
    by (simp add: location_of_fields_def string_field_def number_field_def m scenario_fields_def)
  have "latLonForZip w ''20500'' = (Inr (location_of_fields m), [])"
    using geo typed
      latLonForZip_extract [of w "''20500''" "[(''records'', JArr [JObj [(''fields'', JObj m)]])]"
        "[(''fields'', JObj m)]" "[]" m]
    by (simp add: scenario_geocoding_def)
  moreover have "findNearestStation w 38.9 (- 77.03) = (Inr ''KDCA'', [])"
    using stations findNearestStation_first [of w "38.9" "- 77.03" _ _ "[]"]
    by (simp add: scenario_stations_def trailing4_KDCA)
  moreover have "getLatestObservation w ''KDCA'' =
      (Inr \<lparr>Station = ''KDCA'', Temperature = 21.1\<rparr>, [])"
    using obs getLatestObservation_value [of w "''KDCA''"]
    by (simp add: scenario_observation_def)
  ultimately show ?thesis
    by (simp add: getObservationForZip_def loc)
qed

theorem getObservationForZip_scenario_witness:
  "http_get scenario_world (zip_url ''20500'') = Decoded (scenario_geocoding scenario_fields)
   \<and> distinct (map fst scenario_fields)
   \<and> set scenario_fields = set scenario_fields
   \<and> http_get scenario_world (stations_url scenario_world 38.9 (- 77.03)) = Decoded scenario_stations
   \<and> http_get scenario_world (observation_url ''KDCA'') = Decoded scenario_observation
   \<and> getObservationForZip scenario_world ''20500'' =
           (Inr \<lparr>ZipCode = ''20500'', LookupCity = ''Washington'', LookupState = ''DC'',
                 LookupTemperature = 21.1, LookupStation = ''KDCA''\<rparr>, [])"
proof -
  have h1: "http_get scenario_world (zip_url ''20500'') = Decoded (scenario_geocoding scenario_fields)"
    by (simp add: scenario_world_def)
  have h2: "distinct (map fst scenario_fields)"
    by (simp add: scenario_fields_def)
  have h3: "http_get scenario_world (stations_url scenario_world 38.9 (- 77.03)) = Decoded scenario_stations"
    by (simp add: scenario_world_def stations_url_def zip_url_def)
  have h4: "http_get scenario_world (observation_url ''KDCA'') = Decoded scenario_observation"
    by (simp add: scenario_world_def observation_url_def zip_url_def)
  show ?thesis
    using h1 h2 h3 h4 getObservationForZip_scenario [OF h1 h2 refl h3 h4] by simp
qed

section \<open>The station resolver\<close>

text \<open>
  C2. When the stations response is a mapping in which the key \<open>observationStations\<close>
  is missing or maps to an empty sequence, \<open>findNearestStation\<close> returns the empty
  string and does not panic.
\<close>

theorem findNearestStation_no_station:
  assumes get: "http_get w (stations_url w lat lon) = Decoded (JObj kvs)"
    and none: "map_of kvs ''observationStations'' = None
               \<or> map_of kvs ''observationStations'' = Some (JArr [])"
  shows "findNearestStation w lat lon = (Inr [], [])"
proof -
  have "range_loop_ret (nearest_body kvs) (map fst kvs) [] = Inr (Continue [])"
  proof (rule range_loop_ret_skip)
    fix k assume k: "k \<in> set (map fst kvs)"
    from none show "nearest_body kvs k [] = Inr (Continue [])"
    proof
      assume "map_of kvs ''observationStations'' = None"
      with k have "k \<noteq> ''observationStations''"
        by (force simp: map_of_eq_None_iff)
      then show ?thesis by (simp add: nearest_body_def)
    next
      assume "map_of kvs ''observationStations'' = Some (JArr [])"
      then show ?thesis by (simp add: nearest_body_def index_map_def)
    qed
  qed
  with get show ?thesis by (simp add: findNearestStation_decoded)
qed

theorem findNearestStation_no_station_witness:
  "http_get (reply_world (Decoded (JObj empty_stations)))
       (stations_url (reply_world (Decoded (JObj empty_stations))) 38.9 (- 77.03))
     = Decoded (JObj empty_stations)
   \<and> (map_of empty_stations ''observationStations'' = None
        \<or> map_of empty_stations ''observationStations'' = Some (JArr []))
   \<and> findNearestStation (reply_world (Decoded (JObj empty_stations))) 38.9 (- 77.03) = (Inr [], [])"
proof -
  let ?w = "reply_world (Decoded (JObj empty_stations))"
  have h1: "http_get ?w (stations_url ?w 38.9 (- 77.03)) = Decoded (JObj empty_stations)"
    by (simp add: reply_world_def)
  have h2: "map_of empty_stations ''observationStations'' = None
            \<or> map_of empty_stations ''observationStations'' = Some (JArr [])"
    by (simp add: empty_stations_def)
  show ?thesis
    using h1 h2 findNearestStation_no_station [OF h1 h2] by simp
qed

text \<open>
  C9, as amended. When the first element of \<open>observationStations\<close> is a string,
  \<open>findNearestStation\<close> returns exactly its trailing four bytes if the string has at
  least four bytes, and panics with a slice bound out of range if it is shorter. The
  outcome is a function of that string alone: a second run, on a response with the same
  first station string, in any world and with the keys visited in any order, has the
  same outcome.
\<close>

theorem findNearestStation_trailing_slice:
  assumes "http_get w (stations_url w lat lon) = Decoded (JObj kvs)"
    and "map_of kvs ''observationStations'' = Some (JArr (JStr s # rest))"
    and "http_get w' (stations_url w' lat' lon') = Decoded (JObj kvs')"
    and "map_of kvs' ''observationStations'' = Some (JArr (JStr s # rest'))"
  shows "fst (findNearestStation w lat lon) =
           (if 4 \<le> length s then Inr (drop (length s - 4) s)
            else Inl (SliceBoundsOutOfRange (int (length s) - 4) (length s)))
         \<and> (4 \<le> length s \<longrightarrow> length (drop (length s - 4) s) = 4)
         \<and> findNearestStation w' lat' lon' = findNearestStation w lat lon"
  using assms by (simp add: findNearestStation_first trailing4_def)

theorem findNearestStation_trailing_slice_witness:
  "http_get (reply_world (Decoded scenario_stations))
       (stations_url (reply_world (Decoded scenario_stations)) 38.9 (- 77.03))
     = Decoded scenario_stations
   \<and> http_get (reply_world (Decoded (JObj more_stations)))
       (stations_url (reply_world (Decoded (JObj more_stations))) 0 0)
     = Decoded (JObj more_stations)
   \<and> map_of more_stations ''observationStations''
       = Some (JArr [JStr ''https://api.weather.gov/stations/KDCA'',
                     JStr ''https://api.weather.gov/stations/KADW''])
   \<and> fst (findNearestStation (reply_world (Decoded scenario_stations)) 38.9 (- 77.03)) = Inr ''KDCA''
   \<and> findNearestStation (reply_world (Decoded (JObj more_stations))) 0 0
       = findNearestStation (reply_world (Decoded scenario_stations)) 38.9 (- 77.03)"
proof -
  let ?w = "reply_world (Decoded scenario_stations)"
  let ?w' = "reply_world (Decoded (JObj more_stations))"
  let ?kvs = "[(''observationStations'', JArr [JStr ''https://api.weather.gov/stations/KDCA''])]"
  have h1: "http_get ?w (stations_url ?w 38.9 (- 77.03)) = Decoded (JObj ?kvs)"
    by (simp add: reply_world_def scenario_stations_def)
  have h2: "map_of ?kvs ''observationStations''
              = Some (JArr (JStr ''https://api.weather.gov/stations/KDCA'' # []))"
    by simp
  have h3: "http_get ?w' (stations_url ?w' 0 0) = Decoded (JObj more_stations)"
    by (simp add: reply_world_def)
  have h4: "map_of more_stations ''observationStations''
              = Some (JArr (JStr ''https://api.weather.gov/stations/KDCA''
                            # [JStr ''https://api.weather.gov/stations/KADW'']))"
    by (simp add: more_stations_def)
  show ?thesis
    using h1 h3 h4 findNearestStation_trailing_slice [OF h1 h2 h3 h4]
    by (simp add: scenario_stations_def)
qed

text \<open>
  C9 as stated fails: on the first station string \<open>abc\<close> nothing is returned, the
  slice expression panics.
\<close>

theorem findNearestStation_short_string_counterexample:
  "map_of short_stations ''observationStations'' = Some (JArr [JStr ''abc''])
   \<and> findNearestStation (reply_world (Decoded (JObj short_stations))) 38.9 (- 77.03)
       = (Inl (SliceBoundsOutOfRange (- 1) 3), [])"
  by (simp add: findNearestStation_def getJSONData_def reply_world_def short_stations_def
        nearest_body_def index_map_def stations_body_def index_slice_def slice_from_def)

section \<open>The observation fetcher\<close>

text \<open>
  C3. When the observation response is a mapping from which the path
  \<open>properties.temperature.value\<close> is absent, \<open>getLatestObservation\<close> returns the
  Observation with temperature 0 and with the station string it was given.
\<close>

theorem getLatestObservation_value_absent:
  assumes get: "http_get w (observation_url station) = Decoded (JObj kvs)"
    and wf: "wf_json (JObj kvs)"
    and absent: "value_absent kvs"
  shows "getLatestObservation w station = (Inr \<lparr>Station = station, Temperature = 0\<rparr>, [])"
proof -
  let ?obs = "\<lparr>Station = station, Temperature = 0\<rparr>"
  have "range_loop observation_body kvs ?obs = Inr ?obs"
  proof (cases "map_of kvs ''properties''")
    case None
    then show ?thesis by (rule observation_loop_absent)
  next
    case (Some pv)
    with absent obtain props where pv: "pv = JObj props"
      by (auto simp: value_absent_def split: json.splits)
    from Some pv have props: "map_of kvs ''properties'' = Some (JObj props)" by simp
    with wf have wfp: "wf_json (JObj props)" by (rule wf_json_lookup)
    have "range_loop props_body props ?obs = Inr ?obs"
    proof (cases "map_of props ''temperature''")
      case None
      then show ?thesis by (rule props_loop_absent)
    next
      case (Some tv)
      with absent props
      obtain temp where tv: "tv = JObj temp" and "map_of temp ''value'' = None"
        by (auto simp: value_absent_def split: json.splits)
      then have "range_loop temp_body temp ?obs = Inr ?obs"
        by (simp add: temp_loop_absent)
      with wfp Some tv show ?thesis
        by (simp add: props_loop_present props_body_def)
    qed
    with wf props show ?thesis
      by (simp add: observation_loop_present observation_body_def)
  qed
  with get show ?thesis by (simp add: getLatestObservation_decoded)
qed

theorem getLatestObservation_value_absent_witness:
  "http_get (reply_world (Decoded (JObj bare_observation))) (observation_url ''KDCA'')
     = Decoded (JObj bare_observation)
   \<and> wf_json (JObj bare_observation)
   \<and> value_absent bare_observation
   \<and> getLatestObservation (reply_world (Decoded (JObj bare_observation))) ''KDCA''
       = (Inr \<lparr>Station = ''KDCA'', Temperature = 0\<rparr>, [])"
proof -
  let ?w = "reply_world (Decoded (JObj bare_observation))"
  have h1: "http_get ?w (observation_url ''KDCA'') = Decoded (JObj bare_observation)"
    by (simp add: reply_world_def)
  have h2: "wf_json (JObj bare_observation)"
    by (simp add: bare_observation_def)
  have h3: "value_absent bare_observation"
    by (simp add: value_absent_def bare_observation_def)
  show ?thesis
    using h1 h2 h3 getLatestObservation_value_absent [OF h1 h2 h3] by simp
qed

text \<open>
  C10. When the path \<open>properties.temperature.value\<close> is there and its value is JSON
  null, as in \<open>{"properties":{"temperature":{"value":null}}}\<close>,
  \<open>getLatestObservation\<close> panics at the \<open>float64\<close> type assertion.
\<close>

theorem getLatestObservation_null_value:
  assumes get: "http_get w (observation_url station) = Decoded (JObj kvs)"
    and wf: "wf_json (JObj kvs)"
    and props: "map_of kvs ''properties'' = Some (JObj props)"
    and temp: "map_of props ''temperature'' = Some (JObj temp)"
    and val: "map_of temp ''value'' = Some JNull"
  shows "getLatestObservation w station = (Inl (InterfaceConversion TNil TFloat64), [])"
proof -
  let ?obs = "\<lparr>Station = station, Temperature = 0\<rparr>"
  from wf props have wfp: "wf_json (JObj props)" by (rule wf_json_lookup)
  from wfp temp have wft: "wf_json (JObj temp)" by (rule wf_json_lookup)
  from wft val have "range_loop temp_body temp ?obs = Inl (InterfaceConversion TNil TFloat64)"
    by (simp add: temp_loop_present temp_body_def)
  with wfp temp have "range_loop props_body props ?obs = Inl (InterfaceConversion TNil TFloat64)"
    by (simp add: props_loop_present props_body_def)
  with wf props have "range_loop observation_body kvs ?obs = Inl (InterfaceConversion TNil TFloat64)"
    by (simp add: observation_loop_present observation_body_def)
  with get show ?thesis by (simp add: getLatestObservation_decoded)
qed

theorem getLatestObservation_null_value_witness:
  "http_get (reply_world (Decoded (JObj null_observation))) (observation_url ''KDCA'')
     = Decoded (JObj null_observation)
   \<and> wf_json (JObj null_observation)
   \<and> map_of null_observation ''properties'' = Some (JObj [(''temperature'', JObj [(''value'', JNull)])])
   \<and> map_of [(''temperature'', JObj [(''value'', JNull)])] ''temperature'' = Some (JObj [(''value'', JNull)])
   \<and> map_of [(''value'', JNull)] ''value'' = Some JNull
   \<and> getLatestObservation (reply_world (Decoded (JObj null_observation))) ''KDCA''
       = (Inl (InterfaceConversion TNil TFloat64), [])"
proof -
  let ?w = "reply_world (Decoded (JObj null_observation))"
  have h1: "http_get ?w (observation_url ''KDCA'') = Decoded (JObj null_observation)"
    by (simp add: reply_world_def)
  have h2: "wf_json (JObj null_observation)"
    by (simp add: null_observation_def)
  have h3: "map_of null_observation ''properties''
              = Some (JObj [(''temperature'', JObj [(''value'', JNull)])])"
    by (simp add: null_observation_def)
  have h4: "map_of [(''temperature'', JObj [(''value'', JNull)])] ''temperature''
              = Some (JObj [(''value'', JNull)])"
    by simp
  have h5: "map_of [(''value'', JNull)] ''value'' = Some JNull"
    by simp
  show ?thesis
    using h1 h2 h3 h4 h5 getLatestObservation_null_value [OF h1 h2 h3 h4 h5] by simp
qed

section \<open>The geocoder\<close>

text \<open>
  C5. When the geocoding response is a mapping whose \<open>records\<close> array is not empty
  and whose first record has a \<open>fields\<close> mapping in which each of \<open>city\<close>,
  \<open>zip\<close>, \<open>longitude\<close>, \<open>state\<close>, \<open>latitude\<close> is missing or has its
  expected primitive type, \<open>latLonForZip\<close> returns the Location that holds the value
  of every known key that is there and the zero value for every known key that is not;
  the other keys of \<open>fields\<close> have no part in the result and raise no error.
\<close>

theorem latLonForZip_extraction_policy:
  assumes "http_get w (zip_url z) = Decoded (JObj kvs)"
    and "wf_json (JObj kvs)"
    and "map_of kvs ''records'' = Some (JArr (JObj r # rs))"
    and "map_of r ''fields'' = Some (JObj m)"
    and "typed_fields m"
  shows "latLonForZip w z = (Inr (location_of_fields m), [])"
  using assms by (intro latLonForZip_extract wf_first_record)

theorem latLonForZip_extraction_policy_witness:
  "http_get (reply_world (Decoded (JObj partial_geocoding))) (zip_url ''20500'')
     = Decoded (JObj partial_geocoding)
   \<and> wf_json (JObj partial_geocoding)
   \<and> map_of partial_geocoding ''records'' = Some (JArr [JObj partial_record])
   \<and> map_of partial_record ''fields'' = Some (JObj partial_fields)
   \<and> typed_fields partial_fields
   \<and> latLonForZip (reply_world (Decoded (JObj partial_geocoding))) ''20500''
       = (Inr \<lparr>City = ''Washington'', State = [], Zip = ''20500'', Latitude = 38.9,
               Longitude = 0\<rparr>, [])"
proof -
  let ?w = "reply_world (Decoded (JObj partial_geocoding))"
  have h1: "http_get ?w (zip_url ''20500'') = Decoded (JObj partial_geocoding)"
    by (simp add: reply_world_def)
  have h2: "wf_json (JObj partial_geocoding)"
    by (simp add: partial_geocoding_def partial_record_def partial_fields_def)
  have h3: "map_of partial_geocoding ''records'' = Some (JArr (JObj partial_record # []))"
    by (simp add: partial_geocoding_def)
  have h4: "map_of partial_record ''fields'' = Some (JObj partial_fields)"
    by (simp add: partial_record_def)
  have h5: "typed_fields partial_fields"
    by (simp add: typed_fields_def partial_fields_def string_or_absent_def number_or_absent_def)
  have "location_of_fields partial_fields
          = \<lparr>City = ''Washington'', State = [], Zip = ''20500'', Latitude = 38.9, Longitude = 0\<rparr>"
    by (simp add: location_of_fields_def string_field_def number_field_def partial_fields_def)
  then show ?thesis
    using h1 h2 h3 h4 h5 latLonForZip_extraction_policy [OF h1 h2 h3 h4 h5] by simp
qed

text \<open>
  C4, as amended. Under the same conditions \<open>latLonForZip\<close> returns a Location whose
  zip field is the zip string of \<open>records[0].fields.zip\<close> and whose latitude and
  longitude are the numbers of \<open>records[0].fields\<close>, copied without any check (0 when
  the key is missing): they lie in \<open>[-90, 90]\<close> and \<open>[-180, 180]\<close> exactly when the
  numbers received do.
\<close>

theorem latLonForZip_copies_coordinates:
  assumes "http_get w (zip_url z) = Decoded (JObj kvs)"
    and "wf_json (JObj kvs)"
    and "map_of kvs ''records'' = Some (JArr (JObj r # rs))"
    and "map_of r ''fields'' = Some (JObj m)"
    and "typed_fields m"
  shows "\<exists>loc. latLonForZip w z = (Inr loc, [])
           \<and> (\<forall>s. map_of m ''zip'' = Some (JStr s) \<longrightarrow> Zip loc = s)
           \<and> Latitude loc = number_field m ''latitude''
           \<and> Longitude loc = number_field m ''longitude''
           \<and> (valid_coordinates (Latitude loc) (Longitude loc)
                \<longleftrightarrow> valid_coordinates (number_field m ''latitude'') (number_field m ''longitude''))"
proof -
  from assms have "latLonForZip w z = (Inr (location_of_fields m), [])"
    by (intro latLonForZip_extract wf_first_record)
  then show ?thesis
    by (simp add: location_of_fields_def string_field_def)
qed

theorem latLonForZip_copies_coordinates_witness:
  "http_get scenario_world (zip_url ''20500'') = Decoded (scenario_geocoding scenario_fields)
   \<and> wf_json (scenario_geocoding scenario_fields)
   \<and> typed_fields scenario_fields
   \<and> map_of scenario_fields ''zip'' = Some (JStr ''20500'')
   \<and> number_field scenario_fields ''latitude'' = 38.9
   \<and> number_field scenario_fields ''longitude'' = - 77.03
   \<and> (\<exists>loc. latLonForZip scenario_world ''20500'' = (Inr loc, [])
          \<and> Zip loc = ''20500'' \<and> Latitude loc = 38.9 \<and> Longitude loc = - 77.03
          \<and> valid_coordinates (Latitude loc) (Longitude loc))"
proof -
  let ?r = "[(''fields'', JObj scenario_fields)]"
  let ?kvs = "[(''records'', JArr [JObj ?r])]"
  have h1: "http_get scenario_world (zip_url ''20500'') = Decoded (JObj ?kvs)"
    by (simp add: scenario_world_def scenario_geocoding_def)
  have h2: "wf_json (JObj ?kvs)"
    by (simp add: scenario_fields_def)
  have h3: "map_of ?kvs ''records'' = Some (JArr (JObj ?r # []))"
    by simp
  have h4: "map_of ?r ''fields'' = Some (JObj scenario_fields)"
    by simp
  have h5: "typed_fields scenario_fields"
    by (simp add: typed_fields_def scenario_fields_def string_or_absent_def number_or_absent_def)
  have z: "map_of scenario_fields ''zip'' = Some (JStr ''20500'')"
    by (simp add: scenario_fields_def)
  have lat: "number_field scenario_fields ''latitude'' = 38.9"
    and lon: "number_field scenario_fields ''longitude'' = - 77.03"
    by (simp_all add: number_field_def scenario_fields_def)
  have v: "valid_coordinates 38.9 (- 77.03)"
    by (simp add: valid_coordinates_def)
  from latLonForZip_copies_coordinates [OF h1 h2 h3 h4 h5]
  obtain loc where r: "latLonForZip scenario_world ''20500'' = (Inr loc, [])"
    and zz: "\<forall>s. map_of scenario_fields ''zip'' = Some (JStr s) \<longrightarrow> Zip loc = s"
    and la: "Latitude loc = number_field scenario_fields ''latitude''"
    and lo: "Longitude loc = number_field scenario_fields ''longitude''"
    by blast
  from zz z have zl: "Zip loc = ''20500''" by blast
  from la lat have la': "Latitude loc = 38.9" by (rule trans)
  from lo lon have lo': "Longitude loc = - 77.03" by (rule trans)
  from v have v': "valid_coordinates (Latitude loc) (Longitude loc)" by (simp only: la' lo')
  from r zl la' lo' v'
  have ex: "\<exists>loc. latLonForZip scenario_world ''20500'' = (Inr loc, [])
          \<and> Zip loc = ''20500'' \<and> Latitude loc = 38.9 \<and> Longitude loc = - 77.03
          \<and> valid_coordinates (Latitude loc) (Longitude loc)"
    by blast
  from h1 have g: "http_get scenario_world (zip_url ''20500'') = Decoded (scenario_geocoding scenario_fields)"
    by (simp only: scenario_geocoding_def)
  from h2 have w: "wf_json (scenario_geocoding scenario_fields)"
    by (simp only: scenario_geocoding_def)
  from g w h5 z lat lon ex show ?thesis by blast
qed

text \<open>
  C4 as stated fails: a well-typed response whose latitude is 1000 gives a Location whose
  latitude is 1000, outside \<open>[-90, 90]\<close>.
\<close>

theorem latLonForZip_range_counterexample:
  "map_of far_geocoding ''records'' = Some (JArr [JObj far_record])
   \<and> map_of far_record ''fields'' = Some (JObj far_fields)
   \<and> typed_fields far_fields
   \<and> latLonForZip (reply_world (Decoded (JObj far_geocoding))) ''20500''
       = (Inr \<lparr>City = [], State = [], Zip = ''20500'', Latitude = 1000,
               Longitude = - 77.03\<rparr>, [])
   \<and> \<not> valid_coordinates 1000 (- 77.03)"
  by (simp add: latLonForZip_def getJSONData_def reply_world_def far_geocoding_def far_record_def
        far_fields_def records_body_def record_body_def fields_body_def index_map_def
        index_slice_def typed_fields_def string_or_absent_def number_or_absent_def
        valid_coordinates_def)

text \<open>
  C7. When the geocoding response is a mapping in which \<open>records\<close> is an empty
  array, \<open>latLonForZip\<close> panics with index 0 out of range for length 0; it returns no
  Location.
\<close>

theorem latLonForZip_empty_records:
  assumes get: "http_get w (zip_url z) = Decoded (JObj kvs)"
    and recs: "map_of kvs ''records'' = Some (JArr [])"
  shows "latLonForZip w z = (Inl (IndexOutOfRange 0 0), [])"
proof -
  let ?loc = "\<lparr>City = [], State = [], Zip = [], Latitude = 0, Longitude = 0\<rparr>"
  have "range_loop (records_body kvs) (map fst kvs) ?loc = Inl (IndexOutOfRange 0 0)"
  proof (rule range_loop_panic)
    show "''records'' \<in> set (map fst kvs)" using recs by (rule map_of_key_mem)
    show "records_body kvs ''records'' ?loc = Inl (IndexOutOfRange 0 0)"
      using recs by (simp add: records_body_def index_map_def index_slice_def)
    show "records_body kvs x ?loc = Inr ?loc" if "x \<noteq> ''records''" for x
      using that by (simp add: records_body_def)
  qed
  with get show ?thesis by (simp add: latLonForZip_decoded)
qed

theorem latLonForZip_empty_records_witness:
  "http_get (reply_world (Decoded (JObj empty_geocoding))) (zip_url ''00000'')
     = Decoded (JObj empty_geocoding)
   \<and> map_of empty_geocoding ''records'' = Some (JArr [])
   \<and> latLonForZip (reply_world (Decoded (JObj empty_geocoding))) ''00000''
       = (Inl (IndexOutOfRange 0 0), [])"
proof -
  let ?w = "reply_world (Decoded (JObj empty_geocoding))"
  have h1: "http_get ?w (zip_url ''00000'') = Decoded (JObj empty_geocoding)"
    by (simp add: reply_world_def)
  have h2: "map_of empty_geocoding ''records'' = Some (JArr [])"
    by (simp add: empty_geocoding_def)
  show ?thesis
    using h1 h2 latLonForZip_empty_records [OF h1 h2] by simp
qed

section \<open>The fetcher and its nil result\<close>

text \<open>
  C8. For every URL, when the GET fails at transport level, or succeeds with a body that
  does not decode, \<open>getJSONData\<close> returns the nil value as an ordinary result and
  writes one diagnostic line, ended by a newline, to standard output.
\<close>

theorem getJSONData_failure:
  assumes "http_get w url = TransportError err \<or> http_get w url = DecodeError err"
  shows "getJSONData w url =
           (JNull,
            [(if http_get w url = TransportError err
              then ''There was an error making the request to the location info API: ''
              else ''There was an error processing JSON data: '') @ err @ [CHR 0x0A]])"
  using assms by (auto simp: getJSONData_def)

theorem getJSONData_failure_witness:
  "(http_get (reply_world (DecodeError ''unexpected EOF'')) (observation_url ''KDCA'')
      = TransportError ''unexpected EOF''
    \<or> http_get (reply_world (DecodeError ''unexpected EOF'')) (observation_url ''KDCA'')
      = DecodeError ''unexpected EOF'')
   \<and> getJSONData (reply_world (DecodeError ''unexpected EOF'')) (observation_url ''KDCA'')
      = (JNull, [''There was an error processing JSON data: unexpected EOF'' @ [CHR 0x0A]])"
proof -
  let ?w = "reply_world (DecodeError ''unexpected EOF'')"
  have h: "http_get ?w (observation_url ''KDCA'') = TransportError ''unexpected EOF''
           \<or> http_get ?w (observation_url ''KDCA'') = DecodeError ''unexpected EOF''"
    by (simp add: reply_world_def)
  have "http_get ?w (observation_url ''KDCA'') \<noteq> TransportError ''unexpected EOF''"
    by (simp add: reply_world_def)
  then show ?thesis
    using h getJSONData_failure [OF h] by simp
qed

text \<open>
  C6. Whenever \<open>getJSONData\<close> returns the nil value for the URL that an extractor
  requests, the extractor panics at its first type assertion, on the nil value:
  \<open>latLonForZip\<close>, \<open>findNearestStation\<close> and \<open>getLatestObservation\<close> alike. None
  of them returns a zero-valued result.
\<close>

theorem extractors_crash_on_nil:
  "(fst (getJSONData w (zip_url z)) = JNull
      \<longrightarrow> fst (latLonForZip w z) = Inl (InterfaceConversion TNil TMap))
   \<and> (fst (getJSONData w (stations_url w lat lon)) = JNull
      \<longrightarrow> fst (findNearestStation w lat lon) = Inl (InterfaceConversion TNil TMap))
   \<and> (fst (getJSONData w (observation_url station)) = JNull
      \<longrightarrow> fst (getLatestObservation w station) = Inl (InterfaceConversion TNil TMap))"
  by (simp add: latLonForZip_def findNearestStation_def getLatestObservation_def
        split: prod.split)

theorem extractors_crash_on_nil_witness:
  "fst (getJSONData (reply_world (TransportError ''i/o timeout'')) (zip_url ''20500'')) = JNull
   \<and> fst (latLonForZip (reply_world (TransportError ''i/o timeout'')) ''20500'')
       = Inl (InterfaceConversion TNil TMap)
   \<and> fst (getJSONData (reply_world (TransportError ''i/o timeout''))
            (stations_url (reply_world (TransportError ''i/o timeout'')) 38.9 (- 77.03))) = JNull
   \<and> fst (findNearestStation (reply_world (TransportError ''i/o timeout'')) 38.9 (- 77.03))
       = Inl (InterfaceConversion TNil TMap)
   \<and> fst (getJSONData (reply_world (TransportError ''i/o timeout'')) (observation_url ''KDCA'')) = JNull
   \<and> fst (getLatestObservation (reply_world (TransportError ''i/o timeout'')) ''KDCA'')
       = Inl (InterfaceConversion TNil TMap)"
proof -
  let ?w = "reply_world (TransportError ''i/o timeout'')"
  have h: "fst (getJSONData ?w url) = JNull" for url
    by (simp add: getJSONData_def reply_world_def)
  show ?thesis
    using h extractors_crash_on_nil [of ?w "''20500''" "38.9" "- 77.03" "''KDCA''"] by simp
qed

end
